theory Spec2Isabelle
  imports Complex_Main "HOL-Library.Multiset"
begin

section \<open>Data model (types.ts, constants.tsx)\<close>

text \<open>
  A JavaScript \<open>number\<close> is an IEEE double; a \<open>real\<close> in a number field stands for the
  double nearest to it. The aggregate totals are taken over the exact reals, as the
  quantity which the double computation approximates. Where the code turns a number into
  an integer or into decimal digits (\<open>Math.round\<close>, \<open>toFixed\<close>), and so decides what is
  shown and in which order, every double operation is modelled with its rounding (\<open>fl\<close>
  below). Results beyond the range of the doubles are outside the model. A division by
  zero yields no real number and is visible as \<open>None\<close>.
\<close>

datatype AssetType = CRYPTO | INDIAN_STOCK | US_STOCK | BANK_ACCOUNT

datatype Currency = INR | USD

record Asset =
  id' :: string
  type' :: AssetType
  name :: string
  symbol :: string
  quantity :: real
  averagePrice :: real
  currentPrice :: real
  currency :: Currency
  bankName :: "string option"

record AIInsight =
  title :: string
  content :: string
  itype :: string

definition USD_TO_INR :: real where
  "USD_TO_INR = 83.5"

section \<open>JavaScript primitives used by the valuation code\<close>

text \<open>\<open>Math.round\<close>: the nearest integer, a tie going towards plus infinity.\<close>

definition Math_round :: "real \<Rightarrow> int" where
  "Math_round x = \<lfloor>x + 1 / 2\<rfloor>"

text \<open>\<open>x || 0\<close> on a number: a falsy number (zero) is replaced by \<open>0\<close>.\<close>

definition orZero :: "real \<Rightarrow> real" where
  "orZero x = (if x \<noteq> 0 then x else 0)"

text \<open>
  \<open>a / b\<close>: with a zero divisor JavaScript yields \<open>Infinity\<close> or \<open>NaN\<close>, which is no
  real number; the model returns \<open>None\<close> there.
\<close>

definition js_div :: "real \<Rightarrow> real \<Rightarrow> real option" where
  "js_div a b = (if b = 0 then None else Some (a / b))"

text \<open>
  \<open>x.toFixed(1)\<close>, as the number which the produced decimal numeral denotes: the
  magnitude is rounded to tenths, a tie going away from zero, the sign is kept.
\<close>

definition toFixed1 :: "real \<Rightarrow> real" where
  "toFixed1 x =
     (if x < 0 then - (real_of_int \<lfloor>(- x) * 10 + 1 / 2\<rfloor> / 10)
      else real_of_int \<lfloor>x * 10 + 1 / 2\<rfloor> / 10)"

subsection \<open>Double arithmetic\<close>

text \<open>
  \<open>ulpOf k m u\<close> brings the magnitude \<open>m\<close> into the range of a 53 bit significand by
  halving and doubling, and scales the unit \<open>u\<close> along; the unit does not go below that of
  the subnormal numbers. No double needs more than 2200 steps.
\<close>

fun ulpOf :: "nat \<Rightarrow> real \<Rightarrow> real \<Rightarrow> real" where
  "ulpOf 0 m u = u"
| "ulpOf (Suc k) m u =
     (if m \<ge> 2 ^ 53 then ulpOf k (m / 2) (u * 2)
      else if m < 2 ^ 52 \<and> u > 1 / 2 ^ 1074 then ulpOf k (m * 2) (u / 2)
      else u)"

definition roundHalfEven :: "real \<Rightarrow> int" where
  "roundHalfEven q =
     (let f = \<lfloor>q\<rfloor>; d = q - real_of_int f
      in if d < 1 / 2 then f else if d > 1 / 2 then f + 1 else if even f then f else f + 1)"

text \<open>The double nearest to \<open>x\<close>, a tie going to the even significand.\<close>

definition fl :: "real \<Rightarrow> real" where
  "fl x = (let u = ulpOf 2200 \<bar>x\<bar> 1 in real_of_int (roundHalfEven (x / u)) * u)"

text \<open>Reading a number field: the double for which its real stands.\<close>

definition num :: "real \<Rightarrow> real" where
  "num x = fl x"

text \<open>
  The operators \<open>*\<close>, \<open>+\<close>, \<open>-\<close> and \<open>/\<close> on doubles: the exact result, rounded. A
  zero divisor gives \<open>Infinity\<close> or \<open>NaN\<close>, here \<open>None\<close>.
\<close>

definition dmul :: "real \<Rightarrow> real \<Rightarrow> real" where
  "dmul x y = fl (x * y)"

definition dadd :: "real \<Rightarrow> real \<Rightarrow> real" where
  "dadd x y = fl (x + y)"

definition dsub :: "real \<Rightarrow> real \<Rightarrow> real" where
  "dsub x y = fl (x - y)"

definition ddiv :: "real \<Rightarrow> real \<Rightarrow> real option" where
  "ddiv x y = (if y = 0 then None else Some (fl (x / y)))"

section \<open>Valuation (App component, the memoised aggregates)\<close>

definition totalValueINR :: "Asset list \<Rightarrow> real" where
  "totalValueINR assets =
     foldl (\<lambda>sum asset.
              let val = quantity asset * currentPrice asset
              in sum + (if currency asset = INR then val else val * USD_TO_INR))
       0 assets"

definition totalInvestedINR :: "Asset list \<Rightarrow> real" where
  "totalInvestedINR assets =
     foldl (\<lambda>sum asset.
              let val = quantity asset * orZero (averagePrice asset)
              in sum + (if currency asset = INR then val else val * USD_TO_INR))
       0 assets"

definition totalProfitINR :: "Asset list \<Rightarrow> real" where
  "totalProfitINR assets = totalValueINR assets - totalInvestedINR assets"

definition totalProfitPct :: "Asset list \<Rightarrow> real option" where
  "totalProfitPct assets =
     (if totalInvestedINR assets > 0
      then map_option (\<lambda>q. q * 100) (js_div (totalProfitINR assets) (totalInvestedINR assets))
      else Some 0)"

subsection \<open>AssetCard: the per-card profit and loss\<close>

definition currentValue :: "Asset \<Rightarrow> real" where
  "currentValue asset = quantity asset * currentPrice asset"

definition costBasis :: "Asset \<Rightarrow> real" where
  "costBasis asset = quantity asset * orZero (averagePrice asset)"

definition profitLoss :: "Asset \<Rightarrow> real" where
  "profitLoss asset = currentValue asset - costBasis asset"

definition profitLossPercentage :: "Asset \<Rightarrow> real option" where
  "profitLossPercentage asset =
     (if costBasis asset \<noteq> 0
      then map_option (\<lambda>q. q * 100) (js_div (profitLoss asset) (costBasis asset))
      else Some 0)"

definition valueInINR :: "Asset \<Rightarrow> real" where
  "valueInINR asset =
     (if currency asset = INR then currentValue asset else currentValue asset * USD_TO_INR)"

subsection \<open>assetPerformanceData: the ranked per-asset entries\<close>

record PerformanceEntry =
  psymbol :: string
  pname :: string
  invested :: int
  pvalue :: int
  profitPct :: "real option"
  displayProfit :: "(string \<times> real) option"
  pcolor :: string

text \<open>
  The callback of \<open>assets.map\<close>, its local constants first, in double arithmetic. The
  field \<open>profitPct\<close> holds the number denoted by \<open>profitPct.toFixed(1)\<close>, \<open>displayProfit\<close>
  the sign prefix and the same number (the source appends a percent sign); \<open>None\<close> stands
  for a percentage that is not finite.
\<close>

definition multiplier :: "Asset \<Rightarrow> real" where
  "multiplier a = (if currency a = USD then USD_TO_INR else 1)"

definition marketValue :: "Asset \<Rightarrow> real" where
  "marketValue a = dmul (dmul (num (quantity a)) (num (currentPrice a))) (multiplier a)"

definition investedValue :: "Asset \<Rightarrow> real" where
  "investedValue a =
     dmul (dmul (num (quantity a)) (orZero (num (averagePrice a)))) (multiplier a)"

definition profit :: "Asset \<Rightarrow> real" where
  "profit a = dsub (marketValue a) (investedValue a)"

definition profitPctOf :: "Asset \<Rightarrow> real option" where
  "profitPctOf a =
     (if investedValue a > 0
      then map_option (\<lambda>q. dmul q 100) (ddiv (profit a) (investedValue a))
      else Some 0)"

definition performanceEntry :: "Asset \<Rightarrow> PerformanceEntry" where
  "performanceEntry a =
     \<lparr> psymbol = symbol a,
       pname = name a,
       invested = Math_round (investedValue a),
       pvalue = Math_round (marketValue a),
       profitPct = map_option toFixed1 (profitPctOf a),
       displayProfit =
         map_option (\<lambda>p. (if p \<ge> 0 then ''+'' else '''', toFixed1 p)) (profitPctOf a),
       pcolor = (if type' a = CRYPTO then ''#f59e0b''
                 else if type' a = INDIAN_STOCK then ''#3b82f6''
                 else if type' a = US_STOCK then ''#6366f1'' else ''#10b981'') \<rparr>"

text \<open>
  \<open>Array.prototype.sort\<close> with a comparator is stable (ECMAScript 2019): elements which
  the comparator does not separate keep their order. For a comparator that is a consistent
  ordering this fixes the result, which the insertion sort below computes.
\<close>

fun insertBy :: "('a \<Rightarrow> 'a \<Rightarrow> int) \<Rightarrow> 'a \<Rightarrow> 'a list \<Rightarrow> 'a list" where
  "insertBy cmp x [] = [x]"
| "insertBy cmp x (y # ys) = (if cmp x y \<le> 0 then x # y # ys else y # insertBy cmp x ys)"

fun sortBy :: "('a \<Rightarrow> 'a \<Rightarrow> int) \<Rightarrow> 'a list \<Rightarrow> 'a list" where
  "sortBy cmp [] = []"
| "sortBy cmp (x # xs) = insertBy cmp x (sortBy cmp xs)"

definition assetPerformanceData :: "Asset list \<Rightarrow> PerformanceEntry list" where
  "assetPerformanceData assets =
     take 8 (sortBy (\<lambda>a b. pvalue b - pvalue a) (map performanceEntry assets))"

subsection \<open>allocationData: the buckets per asset type\<close>

record AllocationBucket =
  bname :: string
  bvalue :: int
  bcolor :: string

definition types :: "(string \<times> AssetType \<times> string) list" where
  "types =
     [(''Crypto'', CRYPTO, ''#f59e0b''),
      (''Indian Stocks'', INDIAN_STOCK, ''#3b82f6''),
      (''US Stocks'', US_STOCK, ''#6366f1''),
      (''Bank Accounts'', BANK_ACCOUNT, ''#10b981'')]"

text \<open>The local constant \<open>val\<close> of the callback: the fold over the assets of one type.\<close>

definition bucketTotal :: "AssetType \<Rightarrow> Asset list \<Rightarrow> real" where
  "bucketTotal ttype assets =
     foldl (\<lambda>sum a.
              let amount = dmul (num (quantity a)) (num (currentPrice a))
              in dadd sum (if currency a = INR then amount else dmul amount USD_TO_INR))
       0 (filter (\<lambda>a. type' a = ttype) assets)"

definition allocationData :: "Asset list \<Rightarrow> AllocationBucket list" where
  "allocationData assets =
     filter (\<lambda>d. bvalue d > 0)
       (map (\<lambda>(tname, ttype, tcolor).
               let val = bucketTotal ttype assets
               in \<lparr> bname = tname, bvalue = Math_round val, bcolor = tcolor \<rparr>)
          types)"

text \<open>
  The converted market value of one asset in the words of the specification: quantity
  times current price, multiplied by the rate for a USD asset and left as it is for an INR
  asset. The theorems compare the code's folds with sums of this quantity.
\<close>

definition spec_convertedMarketValue :: "Asset \<Rightarrow> real" where
  "spec_convertedMarketValue a =
     (case currency a of
        USD \<Rightarrow> quantity a * currentPrice a * 83.5
      | INR \<Rightarrow> quantity a * currentPrice a)"

definition spec_convertedInvestedValue :: "Asset \<Rightarrow> real" where
  "spec_convertedInvestedValue a =
     (case currency a of
        USD \<Rightarrow> quantity a * averagePrice a * 83.5
      | INR \<Rightarrow> quantity a * averagePrice a)"

text \<open>The two holdings of the specification's example scenario.\<close>

definition exampleBTC :: Asset where
  "exampleBTC = \<lparr> id' = ''1'', type' = CRYPTO, name = ''Bitcoin'', symbol = ''BTC'',
     quantity = 0.25, averagePrice = 45000, currentPrice = 64000, currency = USD,
     bankName = None \<rparr>"

definition exampleRELIANCE :: Asset where
  "exampleRELIANCE = \<lparr> id' = ''2'', type' = INDIAN_STOCK, name = ''Reliance Industries'',
     symbol = ''RELIANCE'', quantity = 50, averagePrice = 2400, currentPrice = 2950,
     currency = INR, bankName = None \<rparr>"

section \<open>Asset store and application state (App component)\<close>

text \<open>
  The state held by the \<open>useState\<close> hooks of the component. \<open>lastUpdated\<close> is a
  \<open>Date\<close>, taken as a point in time. Three further fields are not in the source; they
  record what the code does to its surroundings: \<open>batchRequests\<close> lists the request sets
  for which \<open>getBatchPrices\<close> has called the text-generation service, \<open>inFlight\<close> counts
  the invocations of \<open>refreshPrices\<close> that have passed the guard and not yet reached their
  \<open>finally\<close> block, and \<open>console\<close> collects the lines written by \<open>console.error\<close>.
  The state of the view (active tab, modal, the asset being edited) is left out: none of
  the functions below reads it.
\<close>

record AppState =
  assets :: "Asset list"
  insights :: "AIInsight list"
  loadingInsights :: bool
  isRefreshingPrices :: bool
  lastUpdated :: nat
  batchRequests :: "Asset list list"
  inFlight :: nat
  console :: "string list"

definition initialState :: "Asset list \<Rightarrow> nat \<Rightarrow> AppState" where
  "initialState stored t0 =
     \<lparr> assets = stored, insights = [], loadingInsights = False, isRefreshingPrices = False,
       lastUpdated = t0, batchRequests = [], inFlight = 0, console = [] \<rparr>"

subsection \<open>handleSaveAsset, handleDeleteAsset\<close>

definition saveAsset :: "Asset \<Rightarrow> Asset list \<Rightarrow> Asset list" where
  "saveAsset asset prev =
     (let exists = find (\<lambda>a. id' a = id' asset) prev
      in if exists \<noteq> None
         then map (\<lambda>a. if id' a = id' asset then asset else a) prev
         else prev @ [asset])"

definition handleSaveAsset :: "Asset \<Rightarrow> AppState \<Rightarrow> AppState" where
  "handleSaveAsset asset st = st\<lparr>assets := saveAsset asset (assets st)\<rparr>"

text \<open>\<open>confirmed\<close> is the answer of \<open>window.confirm\<close>.\<close>

definition handleDeleteAsset :: "string \<Rightarrow> bool \<Rightarrow> AppState \<Rightarrow> AppState" where
  "handleDeleteAsset i confirmed st =
     (if confirmed then st\<lparr>assets := filter (\<lambda>a. id' a \<noteq> i) (assets st)\<rparr> else st)"

section \<open>Price refresh (refreshPrices, getBatchPrices)\<close>

text \<open>
  The object parsed from the service's answer maps symbols to JSON values. The numbers in
  it are the doubles which \<open>JSON.parse\<close> produced.
\<close>

datatype JsonValue =
  JNull | JBool bool | JNumber real | JString string
  | JArray "JsonValue list" | JObject "(string \<times> JsonValue) list"

type_synonym PriceMap = "string \<rightharpoonup> JsonValue"

text \<open>
  What \<open>priceMap[key]\<close> evaluates to: \<open>undefined\<close>, an entry of the object itself, or,
  the object having no such entry, the member of that name which every object inherits
  from \<open>Object.prototype\<close>.
\<close>

datatype JsValue = Undefined | Own JsonValue | Inherited string

definition objectPrototypeNames :: "string list" where
  "objectPrototypeNames =
     [''constructor'', ''hasOwnProperty'', ''isPrototypeOf'', ''propertyIsEnumerable'',
      ''toLocaleString'', ''toString'', ''valueOf'', ''__proto__'',
      ''__defineGetter__'', ''__defineSetter__'', ''__lookupGetter__'', ''__lookupSetter__'']"

definition js_get :: "PriceMap \<Rightarrow> string \<Rightarrow> JsValue" where
  "js_get obj key =
     (case obj key of
        Some v \<Rightarrow> Own v
      | None \<Rightarrow> if key \<in> set objectPrototypeNames then Inherited key else Undefined)"

text \<open>
  Truthiness: \<open>undefined\<close>, \<open>null\<close>, \<open>false\<close>, zero and the empty string are falsy;
  arrays, objects and the inherited members (functions, and the prototype itself) are
  truthy.
\<close>

fun truthy :: "JsValue \<Rightarrow> bool" where
  "truthy Undefined = False"
| "truthy (Own JNull) = False"
| "truthy (Own (JBool b)) = b"
| "truthy (Own (JNumber x)) = (x \<noteq> 0)"
| "truthy (Own (JString s)) = (s \<noteq> [])"
| "truthy (Own (JArray vs)) = True"
| "truthy (Own (JObject kvs)) = True"
| "truthy (Inherited k) = True"

text \<open>
  What the call of the service and the following \<open>JSON.parse\<close> come to: the call is
  rejected, the response has no text, the text is no JSON, or it parses, to \<open>null\<close> or to
  an object.
\<close>

datatype BatchReply =
  RequestFailed | NoText | Unparsable | ParsedNull | ParsedObject PriceMap

text \<open>The value with which the promise of \<open>getBatchPrices\<close> is fulfilled.\<close>

datatype PriceResult = ResultNull | ResultObject PriceMap

definition trackableAssets :: "Asset list \<Rightarrow> Asset list" where
  "trackableAssets assetList = filter (\<lambda>a. type' a \<noteq> BANK_ACCOUNT) assetList"

text \<open>
  \<open>getBatchPrices\<close>, given how the service answers: the fulfilled value and the lines
  logged. Without trackable assets it returns the empty object and calls nothing.
\<close>

definition getBatchPrices :: "Asset list \<Rightarrow> BatchReply \<Rightarrow> PriceResult \<times> string list" where
  "getBatchPrices assetList reply =
     (if length (trackableAssets assetList) = 0 then (ResultObject Map.empty, [])
      else case reply of
             RequestFailed \<Rightarrow> (ResultObject Map.empty, [''Batch Price Update Error:''])
           | NoText \<Rightarrow> (ResultObject Map.empty, [])
           | Unparsable \<Rightarrow> (ResultObject Map.empty, [''Batch Price Update Error:''])
           | ParsedNull \<Rightarrow> (ResultNull, [])
           | ParsedObject m \<Rightarrow> (ResultObject m, []))"

text \<open>
  An element of the array which the updater returns: an asset, or the object
  \<open>{...asset, currentPrice: v}\<close> for a value \<open>v\<close> that is not a number, which is no asset.
\<close>

datatype MergedAsset = Typed Asset | Untyped Asset JsValue

text \<open>
  The callback of \<open>prev.map\<close> in the updater handed to \<open>setAssets\<close>:
  \<open>priceMap[asset.symbol]\<close> is tested for truthiness and copied when truthy.
\<close>

definition mergeAsset :: "PriceMap \<Rightarrow> Asset \<Rightarrow> MergedAsset" where
  "mergeAsset priceMap asset =
     (if truthy (js_get priceMap (symbol asset))
      then (case js_get priceMap (symbol asset) of
              Own (JNumber p) \<Rightarrow> Typed (asset\<lparr>currentPrice := p\<rparr>)
            | v \<Rightarrow> Untyped asset v)
      else Typed asset)"

definition mergePrices :: "PriceMap \<Rightarrow> Asset list \<Rightarrow> MergedAsset list" where
  "mergePrices priceMap prev = map (mergeAsset priceMap) prev"

text \<open>
  The merged array as a collection of assets, when each of its elements is one. Otherwise
  the store holds a current price that is no number, and the model of the state, whose
  store is typed, ends there (\<open>None\<close>).
\<close>

fun typedStore :: "MergedAsset list \<Rightarrow> Asset list option" where
  "typedStore [] = Some []"
| "typedStore (Typed a # ms) = map_option ((#) a) (typedStore ms)"
| "typedStore (Untyped a v # ms) = None"

text \<open>
  \<open>refreshPrices\<close> up to its \<open>await\<close>: the guard, the flag, and the request that
  \<open>getBatchPrices\<close> sends when there is something to track. The callback is created by a
  render and reads \<open>isRefreshingPrices\<close> and \<open>assets\<close> as that render saw them
  (\<open>rendered\<close>); the setters act on the current state \<open>st\<close>. The boolean tells whether
  the invocation went past the guard.
\<close>

definition refreshPrices_start :: "AppState \<Rightarrow> AppState \<Rightarrow> AppState \<times> bool" where
  "refreshPrices_start rendered st =
     (if isRefreshingPrices rendered \<or> length (assets rendered) = 0 then (st, False)
      else (st\<lparr> isRefreshingPrices := True,
                inFlight := inFlight st + 1,
                batchRequests :=
                  batchRequests st @
                    (if length (trackableAssets (assets rendered)) = 0 then []
                     else [trackableAssets (assets rendered)]) \<rparr>,
            True))"

text \<open>
  \<open>refreshPrices\<close> from the \<open>await\<close> on, with the answer of \<open>getBatchPrices\<close> and the
  time \<open>now\<close> of \<open>new Date()\<close>. \<open>Object.keys(null)\<close> throws, which the \<open>catch\<close> logs.
  The updater of \<open>setAssets\<close> receives the store as it is when the answer arrives.
\<close>

definition refreshPrices_finish ::
  "AppState \<Rightarrow> PriceResult \<times> string list \<Rightarrow> nat \<Rightarrow> AppState option" where
  "refreshPrices_finish st answer now =
     (case answer of (priceMap, logged) \<Rightarrow>
        let st1 = st\<lparr>console := console st @ logged\<rparr>;
            st2 = (case priceMap of
                     ResultNull \<Rightarrow>
                       Some (st1\<lparr>console := console st1 @ [''Failed to refresh prices'']\<rparr>)
                   | ResultObject m \<Rightarrow>
                       if dom m \<noteq> {}
                       then map_option (\<lambda>merged. st1\<lparr>assets := merged, lastUpdated := now\<rparr>)
                              (typedStore (mergePrices m (assets st1)))
                       else Some st1)
        in map_option (\<lambda>s. s\<lparr>isRefreshingPrices := False, inFlight := inFlight s - 1\<rparr>) st2)"

text \<open>
  One whole refresh through the callback of the render of the current state, nothing else
  happening in between.
\<close>

definition refreshPrices :: "AppState \<Rightarrow> BatchReply \<Rightarrow> nat \<Rightarrow> AppState option" where
  "refreshPrices st reply now =
     (case refreshPrices_start st st of
        (st', started) \<Rightarrow>
          if started then refreshPrices_finish st' (getBatchPrices (assets st) reply) now
          else Some st')"

section \<open>Insights (getAIInsights, fetchInsights)\<close>

datatype InsightReply =
  InsightRequestFailed | InsightNoText | InsightUnparsable | InsightParsed "AIInsight list"

text \<open>
  \<open>getAIInsights\<close>: its own \<open>catch\<close> turns every failure into the empty array, so the
  promise is always fulfilled (\<open>Inr\<close>) and never rejected (\<open>Inl\<close>).
\<close>

definition getAIInsights :: "InsightReply \<Rightarrow> (string + AIInsight list) \<times> string list" where
  "getAIInsights reply =
     (case reply of
        InsightRequestFailed \<Rightarrow> (Inr [], [''Gemini Insight Error:''])
      | InsightNoText \<Rightarrow> (Inr [], [])
      | InsightUnparsable \<Rightarrow> (Inr [], [''Gemini Insight Error:''])
      | InsightParsed res \<Rightarrow> (Inr res, []))"

definition fetchInsights_start :: "AppState \<Rightarrow> AppState \<times> bool" where
  "fetchInsights_start st =
     (if length (assets st) = 0 then (st\<lparr>insights := []\<rparr>, False)
      else (st\<lparr>loadingInsights := True\<rparr>, True))"

definition fetchInsights_finish ::
  "AppState \<Rightarrow> (string + AIInsight list) \<times> string list \<Rightarrow> AppState" where
  "fetchInsights_finish st answer =
     (case answer of (outcome, logged) \<Rightarrow>
        let st1 = st\<lparr>console := console st @ logged\<rparr>;
            st2 = (case outcome of
                     Inr res \<Rightarrow> st1\<lparr>insights := res\<rparr>
                   | Inl err \<Rightarrow> st1\<lparr>insights := []\<rparr>)
        in st2\<lparr>loadingInsights := False\<rparr>)"

definition fetchInsights :: "AppState \<Rightarrow> InsightReply \<Rightarrow> AppState" where
  "fetchInsights st reply =
     (case fetchInsights_start st of
        (st', started) \<Rightarrow>
          if started then fetchInsights_finish st' (getAIInsights reply) else st')"

text \<open>
  The button of the insight panel: it clears the list, sets the loading flag and calls
  \<open>getAIInsights\<close> itself; \<open>then\<close> stores a fulfilled value, \<open>finally\<close> clears the flag.
\<close>

definition generateReport_start :: "AppState \<Rightarrow> AppState" where
  "generateReport_start st = st\<lparr>insights := [], loadingInsights := True\<rparr>"

definition generateReport_finish ::
  "AppState \<Rightarrow> (string + AIInsight list) \<times> string list \<Rightarrow> AppState" where
  "generateReport_finish st answer =
     (case answer of (outcome, logged) \<Rightarrow>
        let st1 = st\<lparr>console := console st @ logged\<rparr>;
            st2 = (case outcome of
                     Inr res \<Rightarrow> st1\<lparr>insights := res\<rparr>
                   | Inl err \<Rightarrow> st1)
        in st2\<lparr>loadingInsights := False\<rparr>)"

section \<open>Reference quantities and concrete inputs\<close>

text \<open>The summed converted market value of the holdings of one asset type.\<close>

definition spec_typeTotal :: "AssetType \<Rightarrow> Asset list \<Rightarrow> real" where
  "spec_typeTotal t xs =
     sum_list (map spec_convertedMarketValue (filter (\<lambda>a. type' a = t) xs))"

text \<open>Further holdings used as concrete inputs.\<close>

definition dustHolding :: Asset where
  "dustHolding = \<lparr> id' = ''9'', type' = CRYPTO, name = ''Dust'', symbol = ''DUST'',
     quantity = 1, averagePrice = 0.25, currentPrice = 0.25, currency = INR,
     bankName = None \<rparr>"

definition hdfcStock :: Asset where
  "hdfcStock = \<lparr> id' = ''5'', type' = INDIAN_STOCK, name = ''HDFC Bank Ltd'', symbol = ''HDFC'',
     quantity = 10, averagePrice = 1500, currentPrice = 1600, currency = INR,
     bankName = None \<rparr>"

definition hdfcSavings :: Asset where
  "hdfcSavings = \<lparr> id' = ''4'', type' = BANK_ACCOUNT, name = ''Savings Account'', symbol = ''HDFC'',
     quantity = 1, averagePrice = 450000, currentPrice = 450000, currency = INR,
     bankName = Some ''HDFC Bank'' \<rparr>"

definition tieFirst :: Asset where
  "tieFirst = \<lparr> id' = ''7'', type' = US_STOCK, name = ''First'', symbol = ''AAA'',
     quantity = 1, averagePrice = 10, currentPrice = 10.125, currency = INR,
     bankName = None \<rparr>"

definition tieSecond :: Asset where
  "tieSecond = \<lparr> id' = ''8'', type' = US_STOCK, name = ''Second'', symbol = ''BBB'',
     quantity = 1, averagePrice = 10, currentPrice = 10.25, currency = INR,
     bankName = None \<rparr>"

definition giftHolding :: Asset where
  "giftHolding = \<lparr> id' = ''6'', type' = CRYPTO, name = ''Airdrop'', symbol = ''DROP'',
     quantity = 2, averagePrice = 0, currentPrice = 100, currency = USD,
     bankName = None \<rparr>"

definition ctorHolding :: Asset where
  "ctorHolding = \<lparr> id' = ''12'', type' = US_STOCK, name = ''Constructor Corp'',
     symbol = ''constructor'', quantity = 3, averagePrice = 20, currentPrice = 25,
     currency = USD, bankName = None \<rparr>"

text \<open>
  An idle application holding BTC, the state after the callback of its render has been
  invoked once, and the state after the same callback has been invoked again.
\<close>

definition idleState :: AppState where
  "idleState = initialState [exampleBTC] 0"

definition firstTrigger :: AppState where
  "firstTrigger = fst (refreshPrices_start idleState idleState)"

definition secondTrigger :: AppState where
  "secondTrigger = fst (refreshPrices_start idleState firstTrigger)"

section \<open>Valuation: proofs\<close>

lemma foldl_add_sum_list:
  fixes g :: "'a \<Rightarrow> real"
  shows "foldl (\<lambda>s a. s + g a) acc xs = acc + sum_list (map g xs)"
  by (induction xs arbitrary: acc) simp_all

lemma market_fold_eq:
  "foldl (\<lambda>sum asset.
            let val = quantity asset * currentPrice asset
            in sum + (if currency asset = INR then val else val * USD_TO_INR))
     0 xs
   = sum_list (map spec_convertedMarketValue xs)"
proof -
  have "(\<lambda>sum asset.
            let val = quantity asset * currentPrice asset
            in sum + (if currency asset = INR then val else val * USD_TO_INR))
        = (\<lambda>s a. s + spec_convertedMarketValue a)"
    by (intro ext) (simp add: spec_convertedMarketValue_def USD_TO_INR_def Let_def
        split: Currency.split)
  then show ?thesis
    by (simp add: foldl_add_sum_list)
qed

lemma invested_fold_eq:
  "totalInvestedINR xs = sum_list (map spec_convertedInvestedValue xs)"
proof -
  have "(\<lambda>sum asset.
            let val = quantity asset * orZero (averagePrice asset)
            in sum + (if currency asset = INR then val else val * USD_TO_INR))
        = (\<lambda>s a. s + spec_convertedInvestedValue a)"
    by (intro ext) (simp add: spec_convertedInvestedValue_def USD_TO_INR_def Let_def
        orZero_def split: Currency.split)
  then show ?thesis
    by (simp add: totalInvestedINR_def foldl_add_sum_list)
qed

text \<open>
  C1. The total market value is the sum, over the assets, of quantity times current price,
  a USD term multiplied by 83.5 and an INR term left as it is. For the two holdings of the
  example it is 1483500, and for the empty collection it is 0.
\<close>

theorem C1_totalValueINR_sum:
  "totalValueINR xs = sum_list (map spec_convertedMarketValue xs)
   \<and> totalValueINR [exampleBTC, exampleRELIANCE] = 1483500
   \<and> totalValueINR [] = 0"
proof -
  have general: "\<And>ys. totalValueINR ys = sum_list (map spec_convertedMarketValue ys)"
    unfolding totalValueINR_def by (rule market_fold_eq)
  have example: "totalValueINR [exampleBTC, exampleRELIANCE] = 1483500"
    by (simp add: general spec_convertedMarketValue_def exampleBTC_def exampleRELIANCE_def)
  show ?thesis
    using general example by simp
qed

section \<open>Double arithmetic: representable numbers\<close>

lemma fl_zero: "fl 0 = 0"
  by (simp add: fl_def roundHalfEven_def)

lemma ulpOf_in_range:
  assumes "2 ^ 52 \<le> m" and "m < 2 ^ 53"
  shows "ulpOf k m u = u"
  using assms by (cases k) simp_all

lemma ulpOf_doubling:
  assumes "2 ^ 52 \<le> m * 2 ^ j" and "m * 2 ^ j < 2 ^ 53" and "0 \<le> m"
    and "j \<le> k" and "u = 1 / 2 ^ i" and "i + j \<le> 1074"
  shows "ulpOf k m u = u / 2 ^ j"
  using assms
proof (induction j arbitrary: k m u i)
  case 0
  then show ?case
    by (simp add: ulpOf_in_range)
next
  case (Suc j)
  obtain k' where k: "k = Suc k'" and jk: "j \<le> k'"
    using Suc.prems(4) by (cases k) simp_all
  have pos: "(0::real) < 2 ^ j"
    by simp
  have "m * 2 * 2 ^ j < 2 ^ 53"
    using Suc.prems(2) by (simp add: mult.assoc)
  moreover have "m * 2 \<le> m * 2 * 2 ^ j"
  proof -
    have "(1::real) \<le> 2 ^ j"
      by simp
    then have "m * 1 \<le> m * 2 ^ j"
      using Suc.prems(3) by (rule mult_left_mono)
    then show ?thesis
      by simp
  qed
  ultimately have small: "m < 2 ^ 52"
    by simp
  have "i < 1074"
    using Suc.prems(6) by simp
  then have "(2::real) ^ i < 2 ^ 1074"
    by (simp only: power_strict_increasing_iff one_less_numeral_iff semiring_norm)
  then have unit: "u > 1 / 2 ^ 1074"
    unfolding Suc.prems(5) by (simp only: frac_less2 zero_less_power zero_less_numeral
        le_numeral_extra(4) zero_less_one order_refl)
  have step: "ulpOf k m u = ulpOf k' (m * 2) (u / 2)"
    using small unit by (simp add: k)
  have "ulpOf k' (m * 2) (u / 2) = (u / 2) / 2 ^ j"
  proof (rule Suc.IH [where i = "Suc i"])
    show "2 ^ 52 \<le> m * 2 * 2 ^ j"
      using Suc.prems(1) by (simp add: mult.assoc)
    show "m * 2 * 2 ^ j < 2 ^ 53"
      using Suc.prems(2) by (simp add: mult.assoc)
    show "0 \<le> m * 2"
      using Suc.prems(3) by simp
    show "j \<le> k'"
      by (rule jk)
    show "u / 2 = 1 / 2 ^ Suc i"
      by (simp add: Suc.prems(5))
    show "Suc i + j \<le> 1074"
      using Suc.prems(6) by simp
  qed
  with step show ?case
    by simp
qed

lemma roundHalfEven_of_int: "roundHalfEven (real_of_int n) = n"
  by (simp add: roundHalfEven_def)

lemma fl_exact:
  assumes "2 ^ 52 \<le> \<bar>x\<bar> * 2 ^ j" and "\<bar>x\<bar> * 2 ^ j < 2 ^ 53"
    and "x * 2 ^ j = real_of_int n" and "j \<le> 1074"
  shows "fl x = x"
proof -
  have "ulpOf 2200 \<bar>x\<bar> 1 = 1 / 2 ^ j"
    using ulpOf_doubling [of "\<bar>x\<bar>" j 2200 1 0] assms by simp
  then have "fl x = real_of_int (roundHalfEven (x * 2 ^ j)) / 2 ^ j"
    by (simp add: fl_def)
  also have "\<dots> = x * 2 ^ j / 2 ^ j"
    by (simp only: assms(3) roundHalfEven_of_int)
  finally show ?thesis
    by simp
qed

lemma fl_one: "fl 1 = 1"
  by (rule fl_exact [where j = 52 and n = "2 ^ 52"]) simp_all

lemma fl_quarter: "fl (1 / 4) = 1 / 4"
  by (rule fl_exact [where j = 54 and n = "2 ^ 52"]) simp_all

lemma fl_tieFirst: "fl (81 / 8) = 81 / 8"
  by (rule fl_exact [where j = 49 and n = "81 * 2 ^ 46"]) simp_all

lemma fl_tieSecond: "fl (41 / 4) = 41 / 4"
  by (rule fl_exact [where j = 49 and n = "41 * 2 ^ 47"]) simp_all

section \<open>Allocation buckets\<close>

lemma Math_round_pos_iff: "Math_round v > 0 \<longleftrightarrow> v \<ge> 1 / 2"
  unfolding Math_round_def by linarith

lemma allocationData_eq:
  "allocationData xs =
     map (\<lambda>(n, t, c). \<lparr> bname = n, bvalue = Math_round (bucketTotal t xs), bcolor = c \<rparr>)
       (filter (\<lambda>(n, t, c). bucketTotal t xs \<ge> 1 / 2) types)"
  unfolding allocationData_def
  by (simp add: filter_map o_def Let_def case_prod_unfold Math_round_pos_iff)

lemma bucketTotal_Nil: "bucketTotal t [] = 0"
  by (simp add: bucketTotal_def)

lemma bucketTotal_dust: "bucketTotal CRYPTO [dustHolding] = 1 / 4"
  by (simp add: bucketTotal_def dustHolding_def num_def dmul_def dadd_def fl_one fl_quarter)

lemma Math_round_quarter: "Math_round (1 / 4) = 0"
  by (simp add: Math_round_def)

text \<open>
  C2 as stated fails: a crypto holding worth a quarter of a rupee has a summed converted
  value that is not zero, exactly and as computed, and yet its bucket is left out, so
  that no bucket remains.
\<close>

theorem C2_counterexample:
  "spec_typeTotal CRYPTO [dustHolding] \<noteq> 0
   \<and> bucketTotal CRYPTO [dustHolding] \<noteq> 0
   \<and> allocationData [dustHolding] = []"
proof -
  have exact: "spec_typeTotal CRYPTO [dustHolding] \<noteq> 0"
    by (simp add: spec_typeTotal_def spec_convertedMarketValue_def dustHolding_def)
  have others: "bucketTotal INDIAN_STOCK [dustHolding] = 0"
    "bucketTotal US_STOCK [dustHolding] = 0" "bucketTotal BANK_ACCOUNT [dustHolding] = 0"
    by (simp_all add: bucketTotal_def dustHolding_def)
  have "allocationData [dustHolding] = []"
    by (simp add: allocationData_eq types_def bucketTotal_dust others)
  with exact show ?thesis
    by (simp add: bucketTotal_dust)
qed

text \<open>
  C2, amended. The buckets come in the fixed order Crypto, Indian Stocks, US Stocks, Bank
  Accounts. The total of a bucket is the sum of the converted market values of the assets
  of its type as the code computes it, adding the double products from left to right. The
  value of the bucket is this total rounded to the nearest integer, and the bucket is
  present exactly when the total is at least one half, which is when it rounds to a
  positive integer. The empty collection has no buckets.
\<close>

theorem C2_allocationData_rounded:
  "allocationData xs =
     map (\<lambda>(n, t, c). \<lparr> bname = n, bvalue = Math_round (bucketTotal t xs), bcolor = c \<rparr>)
       (filter (\<lambda>(n, t, c). bucketTotal t xs \<ge> 1 / 2)
          [(''Crypto'', CRYPTO, ''#f59e0b''), (''Indian Stocks'', INDIAN_STOCK, ''#3b82f6''),
           (''US Stocks'', US_STOCK, ''#6366f1''), (''Bank Accounts'', BANK_ACCOUNT, ''#10b981'')])
   \<and> bucketTotal t xs =
       foldl (\<lambda>sum a. dadd sum
                (if currency a = INR then dmul (num (quantity a)) (num (currentPrice a))
                 else dmul (dmul (num (quantity a)) (num (currentPrice a))) 83.5))
         0 (filter (\<lambda>a. type' a = t) xs)
   \<and> allocationData [] = []"
proof -
  have empty: "allocationData [] = []"
    by (simp add: allocationData_eq bucketTotal_Nil types_def)
  have total: "bucketTotal t xs =
       foldl (\<lambda>sum a. dadd sum
                (if currency a = INR then dmul (num (quantity a)) (num (currentPrice a))
                 else dmul (dmul (num (quantity a)) (num (currentPrice a))) 83.5))
         0 (filter (\<lambda>a. type' a = t) xs)"
    unfolding bucketTotal_def Let_def USD_TO_INR_def by (rule refl)
  show ?thesis
    using allocationData_eq [of xs] empty total by (simp add: types_def)
qed

section \<open>Ranking and percentages\<close>

lemma insertBy_insort_key:
  "insertBy (\<lambda>a b. key b - key a) x ys = insort_key (\<lambda>e. - key e) x ys"
  for key :: "'a \<Rightarrow> int"
  by (induction ys) simp_all

lemma sortBy_sort_key:
  "sortBy (\<lambda>a b. key b - key a) xs = sort_key (\<lambda>e. - key e) xs"
  for key :: "'a \<Rightarrow> int"
  by (induction xs) (simp_all add: insertBy_insort_key)

lemma sortBy_mset: "mset (sortBy (\<lambda>a b. key b - key a) xs) = mset xs"
  for key :: "'a \<Rightarrow> int"
  by (simp add: sortBy_sort_key)

lemma sortBy_descending:
  "sorted_wrt (\<lambda>a b. key a \<ge> key b) (sortBy (\<lambda>a b. key b - key a) xs)"
  for key :: "'a \<Rightarrow> int"
proof -
  have "sorted (map (\<lambda>e. - key e) (sort_key (\<lambda>e. - key e) xs))"
    by (rule sorted_sort_key)
  then have "sorted_wrt (\<lambda>a b. - key a \<le> - key b) (sort_key (\<lambda>e. - key e) xs)"
    by (simp add: sorted_map)
  then show ?thesis
    by (simp add: sortBy_sort_key)
qed

lemma sortBy_stable:
  "filter (\<lambda>e. key e = k) (sortBy (\<lambda>a b. key b - key a) xs) = filter (\<lambda>e. key e = k) xs"
  for key :: "'a \<Rightarrow> int"
proof -
  have "filter (\<lambda>e. - key e = - k) (sort_key (\<lambda>e. - key e) xs) = filter (\<lambda>e. - key e = - k) xs"
    by (rule sort_key_stable)
  then show ?thesis
    by (simp add: sortBy_sort_key)
qed

lemma orZero_id: "orZero x = x"
  by (simp add: orZero_def)

lemma marketValue_eq:
  "marketValue a =
     dmul (dmul (num (quantity a)) (num (currentPrice a)))
       (if currency a = USD then 83.5 else 1)"
  by (simp add: marketValue_def multiplier_def USD_TO_INR_def)

lemma investedValue_eq:
  "investedValue a =
     dmul (dmul (num (quantity a)) (num (averagePrice a)))
       (if currency a = USD then 83.5 else 1)"
  by (simp add: investedValue_def multiplier_def USD_TO_INR_def orZero_id)

lemma profitPctOf_eq:
  "profitPctOf a =
     Some (if investedValue a > 0
           then dmul (fl (dsub (marketValue a) (investedValue a) / investedValue a)) 100
           else 0)"
  by (simp add: profitPctOf_def profit_def ddiv_def)

lemma entry_pcolor:
  "pcolor (performanceEntry a) =
     (case type' a of CRYPTO \<Rightarrow> ''#f59e0b'' | INDIAN_STOCK \<Rightarrow> ''#3b82f6''
      | US_STOCK \<Rightarrow> ''#6366f1'' | BANK_ACCOUNT \<Rightarrow> ''#10b981'')"
  by (simp add: performanceEntry_def split: AssetType.split)

lemma marketValue_ties:
  "marketValue tieFirst = 81 / 8" "marketValue tieSecond = 41 / 4"
  by (simp_all add: marketValue_def multiplier_def tieFirst_def tieSecond_def num_def dmul_def
      fl_one fl_tieFirst fl_tieSecond)

text \<open>
  C5 as stated fails: two holdings worth 10.125 and 10.25, exactly and as computed, both
  round to 10, the sort sees a tie and keeps the collection order, so the smaller market
  value is ranked first.
\<close>

theorem C5_counterexample:
  "map psymbol (assetPerformanceData [tieFirst, tieSecond]) = [''AAA'', ''BBB'']
   \<and> spec_convertedMarketValue tieFirst < spec_convertedMarketValue tieSecond
   \<and> marketValue tieFirst < marketValue tieSecond"
proof -
  have rounded: "pvalue (performanceEntry tieFirst) = 10" "pvalue (performanceEntry tieSecond) = 10"
    by (simp_all add: performanceEntry_def marketValue_ties Math_round_def)
  have symbols: "psymbol (performanceEntry tieFirst) = ''AAA''"
    "psymbol (performanceEntry tieSecond) = ''BBB''"
    by (simp_all add: performanceEntry_def tieFirst_def tieSecond_def)
  have "map psymbol (assetPerformanceData [tieFirst, tieSecond]) = [''AAA'', ''BBB'']"
    by (simp add: assetPerformanceData_def rounded symbols)
  moreover have "spec_convertedMarketValue tieFirst < spec_convertedMarketValue tieSecond"
    by (simp add: spec_convertedMarketValue_def tieFirst_def tieSecond_def)
  ultimately show ?thesis
    by (simp add: marketValue_ties)
qed

text \<open>
  C5, amended. The ranking has at most 8 entries. It is the first 8 of a rearrangement of
  the per-asset entries that descends by the rounded market value and keeps entries of
  equal rounded value in collection order. An entry carries the symbol and the name of its
  asset, the converted market value and the converted invested value, each computed in
  double arithmetic and rounded to the nearest integer, the profit percent, computed in
  double arithmetic and rendered to one decimal, which is 0 unless the computed invested
  value is positive, and the colour of the asset type. It carries no profit amount.
\<close>

theorem C5_assetPerformanceData_ranked:
  "length (assetPerformanceData xs) \<le> 8
   \<and> sorted_wrt (\<lambda>a b. pvalue a \<ge> pvalue b) (assetPerformanceData xs)
   \<and> (\<exists>s. assetPerformanceData xs = take 8 s
          \<and> mset s = mset (map performanceEntry xs)
          \<and> sorted_wrt (\<lambda>a b. pvalue a \<ge> pvalue b) s
          \<and> (\<forall>k. filter (\<lambda>e. pvalue e = k) s
                  = filter (\<lambda>e. pvalue e = k) (map performanceEntry xs)))
   \<and> psymbol (performanceEntry a) = symbol a
   \<and> pname (performanceEntry a) = name a
   \<and> pvalue (performanceEntry a) = Math_round (marketValue a)
   \<and> invested (performanceEntry a) = Math_round (investedValue a)
   \<and> marketValue a =
       dmul (dmul (num (quantity a)) (num (currentPrice a)))
         (if currency a = USD then 83.5 else 1)
   \<and> investedValue a =
       dmul (dmul (num (quantity a)) (num (averagePrice a)))
         (if currency a = USD then 83.5 else 1)
   \<and> profitPct (performanceEntry a) =
       Some (toFixed1 (if investedValue a > 0
                       then dmul (fl (dsub (marketValue a) (investedValue a) / investedValue a)) 100
                       else 0))
   \<and> pcolor (performanceEntry a) =
       (case type' a of CRYPTO \<Rightarrow> ''#f59e0b'' | INDIAN_STOCK \<Rightarrow> ''#3b82f6''
        | US_STOCK \<Rightarrow> ''#6366f1'' | BANK_ACCOUNT \<Rightarrow> ''#10b981'')"
proof -
  let ?s = "sortBy (\<lambda>a b. pvalue b - pvalue a) (map performanceEntry xs)"
  have len: "length (assetPerformanceData xs) \<le> 8"
    by (simp add: assetPerformanceData_def)
  have desc: "sorted_wrt (\<lambda>a b. pvalue a \<ge> pvalue b) ?s"
    by (rule sortBy_descending)
  then have desc8: "sorted_wrt (\<lambda>a b. pvalue a \<ge> pvalue b) (assetPerformanceData xs)"
    unfolding assetPerformanceData_def by (rule sorted_wrt_take)
  have "assetPerformanceData xs = take 8 ?s
          \<and> mset ?s = mset (map performanceEntry xs)
          \<and> sorted_wrt (\<lambda>a b. pvalue a \<ge> pvalue b) ?s
          \<and> (\<forall>k. filter (\<lambda>e. pvalue e = k) ?s
                  = filter (\<lambda>e. pvalue e = k) (map performanceEntry xs))"
    using desc by (simp add: assetPerformanceData_def sortBy_mset sortBy_stable)
  then have stable: "\<exists>s. assetPerformanceData xs = take 8 s
          \<and> mset s = mset (map performanceEntry xs)
          \<and> sorted_wrt (\<lambda>a b. pvalue a \<ge> pvalue b) s
          \<and> (\<forall>k. filter (\<lambda>e. pvalue e = k) s
                  = filter (\<lambda>e. pvalue e = k) (map performanceEntry xs))"
    by (rule exI)
  have fields: "psymbol (performanceEntry a) = symbol a \<and> pname (performanceEntry a) = name a
      \<and> pvalue (performanceEntry a) = Math_round (marketValue a)
      \<and> invested (performanceEntry a) = Math_round (investedValue a)"
    by (simp add: performanceEntry_def)
  have pct: "profitPct (performanceEntry a) =
       Some (toFixed1 (if investedValue a > 0
                       then dmul (fl (dsub (marketValue a) (investedValue a) / investedValue a)) 100
                       else 0))"
    by (simp add: performanceEntry_def profitPctOf_eq)
  show ?thesis
    using len desc8 stable fields pct marketValue_eq [of a] investedValue_eq [of a]
      entry_pcolor [of a]
    by blast
qed

lemma totalProfitPct_eq:
  "totalProfitPct xs =
     Some (if totalInvestedINR xs > 0 then totalProfitINR xs / totalInvestedINR xs * 100 else 0)"
  by (simp add: totalProfitPct_def js_div_def)

lemma profitLossPercentage_eq:
  "profitLossPercentage a =
     Some (if costBasis a \<noteq> 0 then profitLoss a / costBasis a * 100 else 0)"
  by (simp add: profitLossPercentage_def js_div_def)

lemma investedValue_zero:
  assumes "spec_convertedInvestedValue a = 0"
  shows "investedValue a = 0"
proof -
  have "quantity a = 0 \<or> averagePrice a = 0"
    using assms by (cases "currency a") (simp_all add: spec_convertedInvestedValue_def)
  then show ?thesis
    by (auto simp: investedValue_eq num_def dmul_def fl_zero)
qed

text \<open>
  C6. The overall profit is total market value minus total invested cost. The overall
  percent is profit / invested * 100 when the invested cost is positive and 0 otherwise; it
  is always a number, no division by zero takes place, and with an invested cost of 0 it is
  0 whatever the market value. The per-asset percentages of the ranking and of the asset
  card are guarded in the same way: always a number, and 0 when the invested value is 0.
\<close>

theorem C6_zero_guard:
  "totalProfitINR xs = totalValueINR xs - totalInvestedINR xs
   \<and> totalProfitPct xs =
       Some (if totalInvestedINR xs > 0
             then totalProfitINR xs / totalInvestedINR xs * 100 else 0)
   \<and> (totalInvestedINR xs = 0 \<longrightarrow> totalProfitPct xs = Some 0)
   \<and> profitPct (performanceEntry a) \<noteq> None
   \<and> (spec_convertedInvestedValue a = 0 \<longrightarrow> profitPct (performanceEntry a) = Some 0)
   \<and> (investedValue a = 0 \<longrightarrow> profitPct (performanceEntry a) = Some 0)
   \<and> profitLossPercentage a =
       Some (if costBasis a \<noteq> 0 then profitLoss a / costBasis a * 100 else 0)
   \<and> (costBasis a = 0 \<longrightarrow> profitLossPercentage a = Some 0)"
proof -
  have overall: "totalInvestedINR xs = 0 \<longrightarrow> totalProfitPct xs = Some 0"
    by (simp add: totalProfitPct_eq)
  have guarded: "investedValue a = 0 \<longrightarrow> profitPct (performanceEntry a) = Some 0"
    by (simp add: performanceEntry_def profitPctOf_eq toFixed1_def)
  then have entry: "spec_convertedInvestedValue a = 0 \<longrightarrow> profitPct (performanceEntry a) = Some 0"
    using investedValue_zero [of a] by blast
  have finite: "profitPct (performanceEntry a) \<noteq> None"
    by (simp add: performanceEntry_def profitPctOf_eq)
  have card: "costBasis a = 0 \<longrightarrow> profitLossPercentage a = Some 0"
    by (simp add: profitLossPercentage_eq)
  show ?thesis
    using overall entry guarded finite card totalProfitPct_eq [of xs]
      profitLossPercentage_eq [of a]
    by (simp add: totalProfitINR_def)
qed

text \<open>C6, at a holding received for free: worth 16700, invested 0, percent 0.\<close>

theorem C6_zero_guard_witness:
  "totalInvestedINR [giftHolding] = 0 \<and> totalValueINR [giftHolding] = 16700
   \<and> totalProfitPct [giftHolding] = Some 0
   \<and> spec_convertedInvestedValue giftHolding = 0
   \<and> investedValue giftHolding = 0
   \<and> profitPct (performanceEntry giftHolding) = Some 0
   \<and> costBasis giftHolding = 0 \<and> profitLossPercentage giftHolding = Some 0"
proof -
  have inv: "totalInvestedINR [giftHolding] = 0"
    by (simp add: totalInvestedINR_def giftHolding_def orZero_def)
  have val: "totalValueINR [giftHolding] = 16700"
    by (simp add: totalValueINR_def giftHolding_def USD_TO_INR_def)
  have sinv: "spec_convertedInvestedValue giftHolding = 0"
    by (simp add: spec_convertedInvestedValue_def giftHolding_def)
  have cb: "costBasis giftHolding = 0"
    by (simp add: costBasis_def giftHolding_def orZero_def)
  have dinv: "investedValue giftHolding = 0"
    using sinv by (rule investedValue_zero)
  show ?thesis
    using C6_zero_guard [of "[giftHolding]" giftHolding] inv val sinv cb dinv by simp
qed

section \<open>Price merge\<close>

lemma mergePrices_length: "length (mergePrices pm xs) = length xs"
  by (simp add: mergePrices_def)

lemma mergePrices_nth: "i < length xs \<Longrightarrow> mergePrices pm xs ! i = mergeAsset pm (xs ! i)"
  by (simp add: mergePrices_def)

lemma mergeAsset_number:
  "pm (symbol a) = Some (JNumber p) \<Longrightarrow> p \<noteq> 0 \<Longrightarrow>
   mergeAsset pm a = Typed (a\<lparr>currentPrice := p\<rparr>)"
  by (simp add: mergeAsset_def js_get_def)

lemma mergeAsset_falsy:
  "pm (symbol a) = Some JNull \<or> pm (symbol a) = Some (JNumber 0)
     \<or> (pm (symbol a) = None \<and> symbol a \<notin> set objectPrototypeNames) \<Longrightarrow>
   mergeAsset pm a = Typed a"
  by (auto simp: mergeAsset_def js_get_def)

lemma mergeAsset_inherited:
  "pm (symbol a) = None \<Longrightarrow> symbol a \<in> set objectPrototypeNames \<Longrightarrow>
   mergeAsset pm a = Untyped a (Inherited (symbol a))"
  by (simp add: mergeAsset_def js_get_def)

lemma mergeAsset_not_a_number:
  "pm (symbol a) = Some v \<Longrightarrow> truthy (Own v) \<Longrightarrow> \<forall>p. v \<noteq> JNumber p \<Longrightarrow>
   mergeAsset pm a = Untyped a (Own v)"
  by (cases v) (simp_all add: mergeAsset_def js_get_def)

lemma typedStore_map_Typed: "typedStore (map Typed xs) = Some xs"
  by (induction xs) simp_all

lemma finish_assets:
  "map_option assets (refreshPrices_finish st (ResultObject pm, logged) now) =
     (if dom pm = {} then Some (assets st) else typedStore (mergePrices pm (assets st)))"
  by (simp add: refreshPrices_finish_def Let_def option.map_comp o_def option.map_ident)

text \<open>
  C3 as stated fails twice. The mapping holds the entry 0 for BTC, which is not null, and
  the current price of the BTC holding stays 64000. And a holding with the symbol
  constructor, absent from the mapping, does not stay as it is: the lookup finds the
  member which every object inherits, and this function becomes the current price.
\<close>

theorem C3_counterexample:
  "[''BTC'' \<mapsto> JNumber 0] (symbol exampleBTC) = Some (JNumber 0)
   \<and> currentPrice exampleBTC = 64000
   \<and> mergePrices [''BTC'' \<mapsto> JNumber 0] [exampleBTC] = [Typed exampleBTC]
   \<and> [''BTC'' \<mapsto> JNumber 70000] (symbol ctorHolding) = None
   \<and> mergePrices [''BTC'' \<mapsto> JNumber 70000] [ctorHolding]
       = [Untyped ctorHolding (Inherited ''constructor'')]"
  by (simp add: mergePrices_def mergeAsset_def js_get_def objectPrototypeNames_def
      exampleBTC_def ctorHolding_def)

text \<open>
  C3, amended. The merge keeps the length and the order of the collection. An asset whose
  symbol is mapped to a number other than zero gets that number as its current price and
  is otherwise as before. An asset whose symbol is mapped to null or to zero is unchanged,
  and so is an asset whose symbol is absent from the mapping, provided the symbol is not
  the name of a member inherited from \<open>Object.prototype\<close>. A settled refresh stores the
  merge for every object with at least one key and leaves the store alone for the empty
  object. Merging BTC at 70000 into the BTC holding at 64000 gives the current price
  70000.
\<close>

theorem C3_merge_truthy_entries:
  "length (mergePrices pm xs) = length xs
   \<and> (\<forall>i < length xs.
        (\<forall>p. pm (symbol (xs ! i)) = Some (JNumber p) \<and> p \<noteq> 0 \<longrightarrow>
             mergePrices pm xs ! i = Typed ((xs ! i)\<lparr>currentPrice := p\<rparr>))
        \<and> (pm (symbol (xs ! i)) = Some JNull \<or> pm (symbol (xs ! i)) = Some (JNumber 0)
             \<or> (pm (symbol (xs ! i)) = None \<and> symbol (xs ! i) \<notin> set objectPrototypeNames) \<longrightarrow>
           mergePrices pm xs ! i = Typed (xs ! i)))
   \<and> map_option assets (refreshPrices_finish st (ResultObject pm, logged) now) =
       (if dom pm = {} then Some (assets st) else typedStore (mergePrices pm (assets st)))
   \<and> mergePrices [''BTC'' \<mapsto> JNumber 70000] [exampleBTC]
       = [Typed (exampleBTC\<lparr>currentPrice := 70000\<rparr>)]"
proof -
  have example: "mergePrices [''BTC'' \<mapsto> JNumber 70000] [exampleBTC]
       = [Typed (exampleBTC\<lparr>currentPrice := 70000\<rparr>)]"
    by (simp add: mergePrices_def mergeAsset_def js_get_def exampleBTC_def)
  have each: "\<forall>i < length xs.
        (\<forall>p. pm (symbol (xs ! i)) = Some (JNumber p) \<and> p \<noteq> 0 \<longrightarrow>
             mergePrices pm xs ! i = Typed ((xs ! i)\<lparr>currentPrice := p\<rparr>))
        \<and> (pm (symbol (xs ! i)) = Some JNull \<or> pm (symbol (xs ! i)) = Some (JNumber 0)
             \<or> (pm (symbol (xs ! i)) = None \<and> symbol (xs ! i) \<notin> set objectPrototypeNames) \<longrightarrow>
           mergePrices pm xs ! i = Typed (xs ! i))"
  proof (intro allI impI conjI)
    fix i p
    assume "i < length xs" and "pm (symbol (xs ! i)) = Some (JNumber p) \<and> p \<noteq> 0"
    then show "mergePrices pm xs ! i = Typed ((xs ! i)\<lparr>currentPrice := p\<rparr>)"
      by (simp add: mergePrices_nth mergeAsset_number)
  next
    fix i
    assume "i < length xs"
      and "pm (symbol (xs ! i)) = Some JNull \<or> pm (symbol (xs ! i)) = Some (JNumber 0)
             \<or> (pm (symbol (xs ! i)) = None \<and> symbol (xs ! i) \<notin> set objectPrototypeNames)"
    then show "mergePrices pm xs ! i = Typed (xs ! i)"
      by (simp only: mergePrices_nth mergeAsset_falsy)
  qed
  show ?thesis
    using example each mergePrices_length [of pm xs] finish_assets [of st pm logged now]
    by blast
qed

text \<open>C3, at a BTC holding that is mapped and a RELIANCE holding that is not.\<close>

theorem C3_merge_truthy_entries_witness:
  "mergePrices [''BTC'' \<mapsto> JNumber 70000] [exampleBTC, exampleRELIANCE] ! 0
     = Typed (exampleBTC\<lparr>currentPrice := 70000\<rparr>)
   \<and> mergePrices [''BTC'' \<mapsto> JNumber 70000] [exampleBTC, exampleRELIANCE] ! 1
     = Typed exampleRELIANCE"
proof -
  let ?pm = "[''BTC'' \<mapsto> JNumber 70000]"
  let ?xs = "[exampleBTC, exampleRELIANCE]"
  note each = C3_merge_truthy_entries [of ?pm ?xs, THEN conjunct2, THEN conjunct1]
  have i0: "0 < length ?xs" and i1: "1 < length ?xs"
    by simp_all
  have h0: "?pm (symbol (?xs ! 0)) = Some (JNumber 70000) \<and> (70000::real) \<noteq> 0"
    by (simp add: exampleBTC_def)
  have h1: "?pm (symbol (?xs ! 1)) = Some JNull \<or> ?pm (symbol (?xs ! 1)) = Some (JNumber 0)
      \<or> (?pm (symbol (?xs ! 1)) = None \<and> symbol (?xs ! 1) \<notin> set objectPrototypeNames)"
    by (simp add: exampleRELIANCE_def objectPrototypeNames_def)
  have "mergePrices ?pm ?xs ! 0 = Typed ((?xs ! 0)\<lparr>currentPrice := 70000\<rparr>)"
    by (rule each [THEN spec, of 0, THEN mp, OF i0, THEN conjunct1, THEN spec, of 70000,
          THEN mp, OF h0])
  moreover have "mergePrices ?pm ?xs ! 1 = Typed (?xs ! 1)"
    by (rule each [THEN spec, of 1, THEN mp, OF i1, THEN conjunct2, THEN mp, OF h1])
  ultimately show ?thesis by simp
qed

text \<open>
  C4 does not hold of the code. A stock and a savings account share the symbol HDFC. The
  request is sent for the stock alone, as the claim says, but the merge goes by symbol and
  never looks at the asset type: the price returned for the stock replaces the balance of
  the bank account as well.
\<close>

theorem C4_bank_account_overwritten:
  "map_option batchRequests (refreshPrices (initialState [hdfcStock, hdfcSavings] 0)
       (ParsedObject [''HDFC'' \<mapsto> JNumber 1650]) 1) = Some [[hdfcStock]]
   \<and> type' hdfcSavings = BANK_ACCOUNT
   \<and> currentPrice hdfcSavings = 450000
   \<and> map_option assets (refreshPrices (initialState [hdfcStock, hdfcSavings] 0)
       (ParsedObject [''HDFC'' \<mapsto> JNumber 1650]) 1)
     = Some [hdfcStock\<lparr>currentPrice := 1650\<rparr>, hdfcSavings\<lparr>currentPrice := 1650\<rparr>]"
  by (simp add: refreshPrices_def refreshPrices_start_def refreshPrices_finish_def
      getBatchPrices_def trackableAssets_def initialState_def mergePrices_def mergeAsset_def
      js_get_def hdfcStock_def hdfcSavings_def Let_def)

section \<open>The refresh guard\<close>

lemma firstTrigger_eq:
  "firstTrigger = idleState\<lparr>isRefreshingPrices := True, inFlight := 1,
     batchRequests := [[exampleBTC]]\<rparr>"
  by (simp add: firstTrigger_def idleState_def refreshPrices_start_def initialState_def
      trackableAssets_def exampleBTC_def)

lemma secondTrigger_eq:
  "secondTrigger = idleState\<lparr>isRefreshingPrices := True, inFlight := 2,
     batchRequests := [[exampleBTC], [exampleBTC]]\<rparr>"
  by (simp add: secondTrigger_def firstTrigger_eq)
    (simp add: idleState_def refreshPrices_start_def initialState_def
      trackableAssets_def exampleBTC_def)

text \<open>
  C7 does not hold of the code. The guard reads the flag which the render of the callback
  saw, not the current one. Invoked twice through the callback of one render, of an idle
  application, \<open>refreshPrices\<close> passes the guard both times: two refreshes are in flight,
  two requests have gone to the service, and when both settle the store holds the prices
  of the second answer. Only an invocation through the callback of a later render, which
  has seen the flag, is dropped.
\<close>

theorem C7_two_triggers_one_render:
  "snd (refreshPrices_start idleState idleState)
   \<and> isRefreshingPrices firstTrigger \<and> inFlight firstTrigger = 1
   \<and> snd (refreshPrices_start idleState firstTrigger)
   \<and> inFlight secondTrigger = 2
   \<and> batchRequests secondTrigger = [[exampleBTC], [exampleBTC]]
   \<and> map_option (map currentPrice \<circ> assets)
       (Option.bind
          (refreshPrices_finish secondTrigger (ResultObject [''BTC'' \<mapsto> JNumber 70000], []) 1)
          (\<lambda>s. refreshPrices_finish s (ResultObject [''BTC'' \<mapsto> JNumber 71000], []) 2))
       = Some [71000]
   \<and> refreshPrices_start firstTrigger firstTrigger = (firstTrigger, False)"
proof -
  have passes: "snd (refreshPrices_start idleState idleState)"
    "snd (refreshPrices_start idleState firstTrigger)"
    by (simp_all add: refreshPrices_start_def idleState_def initialState_def)
  have dropped: "refreshPrices_start firstTrigger firstTrigger = (firstTrigger, False)"
    by (simp add: refreshPrices_start_def firstTrigger_eq)
  have merges: "map_option (map currentPrice \<circ> assets)
       (Option.bind
          (refreshPrices_finish secondTrigger (ResultObject [''BTC'' \<mapsto> JNumber 70000], []) 1)
          (\<lambda>s. refreshPrices_finish s (ResultObject [''BTC'' \<mapsto> JNumber 71000], []) 2))
       = Some [71000]"
    by (simp add: secondTrigger_eq idleState_def initialState_def refreshPrices_finish_def
        mergePrices_def mergeAsset_def js_get_def exampleBTC_def Let_def)
  show ?thesis
    using passes dropped merges by (simp add: firstTrigger_eq secondTrigger_eq)
qed

section \<open>Failed and successful refreshes\<close>









section \<open>Insights and the asset store\<close>

lemma getAIInsights_fulfilled: "\<exists>res. fst (getAIInsights reply) = Inr res"
  by (cases reply) (simp_all add: getAIInsights_def)

lemma fetchInsights_assets: "assets (fetchInsights st reply) = assets st"
  by (cases reply)
    (simp_all add: fetchInsights_def fetchInsights_start_def fetchInsights_finish_def
      getAIInsights_def Let_def)

lemma fetchInsights_rejected: "insights (fetchInsights_finish st (Inl err, logged)) = []"
  by (simp add: fetchInsights_finish_def Let_def)

text \<open>
  C9. When the insight call fails or its response does not parse, \<open>getAIInsights\<close> is
  fulfilled with the empty array and the insight list becomes empty. The call is never
  rejected; if it were, the \<open>catch\<close> of \<open>fetchInsights\<close> would empty the list as well.
  Whatever the service answers, the asset store, the timestamp and every valuation result
  are as before.
\<close>

theorem C9_insight_failure_empty:
  "(reply = InsightRequestFailed \<or> reply = InsightUnparsable \<longrightarrow>
      fst (getAIInsights reply) = Inr []
      \<and> insights (fetchInsights st reply) = [])
   \<and> (\<exists>res. fst (getAIInsights r) = Inr res)
   \<and> insights (fetchInsights_finish st (Inl err, logged)) = []
   \<and> assets (fetchInsights st r) = assets st
   \<and> lastUpdated (fetchInsights st r) = lastUpdated st
   \<and> totalValueINR (assets (fetchInsights st r)) = totalValueINR (assets st)
   \<and> totalInvestedINR (assets (fetchInsights st r)) = totalInvestedINR (assets st)
   \<and> totalProfitPct (assets (fetchInsights st r)) = totalProfitPct (assets st)
   \<and> assetPerformanceData (assets (fetchInsights st r)) = assetPerformanceData (assets st)
   \<and> allocationData (assets (fetchInsights st r)) = allocationData (assets st)"
proof -
  have failed: "reply = InsightRequestFailed \<or> reply = InsightUnparsable \<longrightarrow>
      fst (getAIInsights reply) = Inr []
      \<and> insights (fetchInsights st reply) = []"
    by (auto simp: fetchInsights_def fetchInsights_start_def fetchInsights_finish_def
        getAIInsights_def Let_def)
  have stamp: "lastUpdated (fetchInsights st r) = lastUpdated st"
    by (cases r)
      (simp_all add: fetchInsights_def fetchInsights_start_def fetchInsights_finish_def
        getAIInsights_def Let_def)
  show ?thesis
    using failed stamp getAIInsights_fulfilled [of r] fetchInsights_rejected [of st err logged]
    by (simp add: fetchInsights_assets)
qed

text \<open>C9, at a response that does not parse.\<close>

theorem C9_insight_failure_empty_witness:
  "fst (getAIInsights InsightUnparsable) = Inr []
   \<and> insights (fetchInsights (initialState [exampleBTC] 5) InsightUnparsable) = []
   \<and> assets (fetchInsights (initialState [exampleBTC] 5) InsightUnparsable) = [exampleBTC]"
proof -
  have fields: "assets (initialState [exampleBTC] 5) = [exampleBTC]"
    by (simp add: initialState_def)
  show ?thesis
    using C9_insight_failure_empty [of InsightUnparsable "initialState [exampleBTC] 5"
        InsightUnparsable] fields
    by simp
qed

lemma saveAsset_existing:
  assumes "\<exists>x \<in> set prev. id' x = id' asset"
  shows "saveAsset asset prev = map (\<lambda>a. if id' a = id' asset then asset else a) prev"
proof -
  have "find (\<lambda>a. id' a = id' asset) prev \<noteq> None"
    using assms by (auto simp: find_None_iff)
  then show ?thesis
    by (simp add: saveAsset_def Let_def)
qed

lemma saveAsset_fresh:
  assumes "\<forall>x \<in> set prev. id' x \<noteq> id' asset"
  shows "saveAsset asset prev = prev @ [asset]"
proof -
  have "find (\<lambda>a. id' a = id' asset) prev = None"
    using assms by (simp add: find_None_iff)
  then show ?thesis
    by (simp add: saveAsset_def Let_def)
qed

lemma saveAsset_distinct:
  assumes "distinct (map id' prev)"
  shows "distinct (map id' (saveAsset asset prev))"
proof (cases "\<exists>x \<in> set prev. id' x = id' asset")
  case True
  have "map id' (map (\<lambda>a. if id' a = id' asset then asset else a) prev) = map id' prev"
    by (induction prev) simp_all
  with True assms show ?thesis
    by (simp add: saveAsset_existing del: map_map)
next
  case False
  then have "saveAsset asset prev = prev @ [asset]"
    by (simp add: saveAsset_fresh)
  with False assms show ?thesis
    by auto
qed

text \<open>
  C10. Saving an asset whose id is already in the collection keeps the length, puts the
  saved asset at every position that has this id and leaves every other position as it
  was; saving an asset with a new id appends it. Ids that are unique stay unique. A
  confirmed deletion keeps exactly the elements with another id, in order; a deletion
  that is not confirmed changes nothing.
\<close>

theorem C10_save_is_upsert:
  "((\<exists>x \<in> set prev. id' x = id' asset) \<longrightarrow>
      length (saveAsset asset prev) = length prev
      \<and> (\<forall>i < length prev.
           saveAsset asset prev ! i = (if id' (prev ! i) = id' asset then asset else prev ! i)))
   \<and> ((\<forall>x \<in> set prev. id' x \<noteq> id' asset) \<longrightarrow> saveAsset asset prev = prev @ [asset])
   \<and> (distinct (map id' prev) \<longrightarrow> distinct (map id' (saveAsset asset prev)))
   \<and> assets (handleSaveAsset asset st) = saveAsset asset (assets st)
   \<and> assets (handleDeleteAsset i True st) = filter (\<lambda>a. id' a \<noteq> i) (assets st)
   \<and> handleDeleteAsset i False st = st
   \<and> (distinct (map id' (assets st)) \<longrightarrow>
        distinct (map id' (assets (handleDeleteAsset i confirmed st))))"
proof -
  have existing: "(\<exists>x \<in> set prev. id' x = id' asset) \<longrightarrow>
      length (saveAsset asset prev) = length prev
      \<and> (\<forall>i < length prev.
           saveAsset asset prev ! i = (if id' (prev ! i) = id' asset then asset else prev ! i))"
    by (simp add: saveAsset_existing)
  have fresh: "(\<forall>x \<in> set prev. id' x \<noteq> id' asset) \<longrightarrow> saveAsset asset prev = prev @ [asset]"
    by (simp add: saveAsset_fresh)
  have unique: "distinct (map id' prev) \<longrightarrow> distinct (map id' (saveAsset asset prev))"
    by (simp add: saveAsset_distinct)
  have del: "distinct (map id' (assets st)) \<longrightarrow>
        distinct (map id' (assets (handleDeleteAsset i confirmed st)))"
    by (simp add: handleDeleteAsset_def distinct_map_filter)
  show ?thesis
    using existing fresh unique del
    by (simp add: handleSaveAsset_def handleDeleteAsset_def)
qed

text \<open>C10, editing and adding a holding and deleting one.\<close>

theorem C10_save_is_upsert_witness:
  "saveAsset (exampleBTC\<lparr>quantity := 1\<rparr>) [exampleBTC, exampleRELIANCE]
     = [exampleBTC\<lparr>quantity := 1\<rparr>, exampleRELIANCE]
   \<and> saveAsset exampleRELIANCE [exampleBTC] = [exampleBTC, exampleRELIANCE]
   \<and> distinct (map id' (saveAsset exampleRELIANCE [exampleBTC]))
   \<and> assets (handleDeleteAsset ''1'' True (initialState [exampleBTC, exampleRELIANCE] 0))
       = [exampleRELIANCE]"
proof -
  let ?edited = "exampleBTC\<lparr>quantity := 1\<rparr>"
  let ?both = "[exampleBTC, exampleRELIANCE]"
  have ids: "id' exampleBTC = ''1''" "id' exampleRELIANCE = ''2''" "id' ?edited = ''1''"
    by (simp_all add: exampleBTC_def exampleRELIANCE_def)
  have present: "\<exists>x \<in> set ?both. id' x = id' ?edited"
    by (simp add: ids)
  have absent: "\<forall>x \<in> set [exampleBTC]. id' x \<noteq> id' exampleRELIANCE"
    by (simp add: ids)
  have uniq: "distinct (map id' [exampleBTC])"
    by simp
  note edit = C10_save_is_upsert [of ?both ?edited, THEN conjunct1, THEN mp, OF present]
  note add = C10_save_is_upsert [of "[exampleBTC]" exampleRELIANCE]
  have "saveAsset ?edited ?both ! 0 = ?edited" "saveAsset ?edited ?both ! 1 = exampleRELIANCE"
    using edit by (simp_all add: ids)
  moreover have "length (saveAsset ?edited ?both) = 2"
    using edit by simp
  ultimately have first: "saveAsset ?edited ?both = [?edited, exampleRELIANCE]"
    by (metis (no_types, lifting) One_nat_def length_0_conv length_Suc_conv nth_Cons_0
        nth_Cons_Suc numeral_2_eq_2)
  have second: "saveAsset exampleRELIANCE [exampleBTC] = [exampleBTC, exampleRELIANCE]"
    using add absent by simp
  have third: "distinct (map id' (saveAsset exampleRELIANCE [exampleBTC]))"
    using add uniq by blast
  have fourth: "assets (handleDeleteAsset ''1'' True (initialState ?both 0)) = [exampleRELIANCE]"
    using C10_save_is_upsert [of ?both ?edited "initialState ?both 0" "''1''"]
    by (simp add: initialState_def ids)
  show ?thesis
    using first second third fourth by simp
qed

end
